theory Spec2Isabelle
  imports Complex_Main "HOL-Library.Sublist"
begin

section \<open>Python strings\<close>

text \<open>
  A Python \<open>str\<close> is a sequence of Unicode code points; it is modelled as a list of
  natural numbers, one per code point.  \<open>cp\<close> turns an ASCII literal into such a list;
  the two accented letters of the configuration are written by their code point
  (U+00F3, 243).
\<close>

type_synonym pystr = "nat list"

definition cp :: "string \<Rightarrow> pystr" where
  "cp s = map of_char s"

text \<open>
  \<open>str.lower\<close> is a builtin of the interpreter, not code of the repository.  It is
  modelled on the Basic Latin and Latin-1 blocks (U+0000 to U+00FF), where it adds 32 to the
  capital letters A to Z and U+00C0 to U+00DE (the multiplication sign U+00D7 apart);
  code points beyond U+00FF are left as they are.
\<close>

definition lower_cp :: "nat \<Rightarrow> nat" where
  "lower_cp c = (if (65 \<le> c \<and> c \<le> 90) \<or> (192 \<le> c \<and> c \<le> 222 \<and> c \<noteq> 215) then c + 32 else c)"

definition lower :: "pystr \<Rightarrow> pystr" where
  "lower s = map lower_cp s"

text \<open>
  \<open>str.capitalize\<close>: the first code point in title case, the rest in lower case.  On
  Latin-1 the title case of a small letter is 32 below it, except for U+00DF (sharp s, which
  becomes the two code points "Ss"), U+00FF (which becomes U+0178) and U+00B5 (the micro
  sign, which becomes U+039C); the division sign U+00F7 is not a letter.
\<close>

definition title_cp :: "nat \<Rightarrow> pystr" where
  "title_cp c =
     (if c = 223 then [83, 115]
      else if c = 255 then [376]
      else if c = 181 then [924]
      else if (97 \<le> c \<and> c \<le> 122) \<or> (224 \<le> c \<and> c \<le> 254 \<and> c \<noteq> 247) then [c - 32]
      else [c])"

fun capitalize :: "pystr \<Rightarrow> pystr" where
  "capitalize [] = []"
| "capitalize (c # s) = title_cp c @ lower s"

text \<open>\<open>s.startswith(sub)\<close> and the substring test \<open>sub in s\<close>.\<close>

fun startswith :: "'a list \<Rightarrow> 'a list \<Rightarrow> bool" where
  "startswith s [] = True"
| "startswith [] (c # sub) = False"
| "startswith (d # s) (c # sub) = (d = c \<and> startswith s sub)"

fun py_in :: "'a list \<Rightarrow> 'a list \<Rightarrow> bool" where
  "py_in sub [] = (sub = [])"
| "py_in sub (d # s) = (startswith (d # s) sub \<or> py_in sub s)"

section \<open>Constants of \<open>sistemas_actas.py\<close>\<close>

definition PALABRAS_CLAVE :: "pystr list" where
  "PALABRAS_CLAVE =
     [cp ''obra'', cp ''riesgo'', cp ''medida'', cp ''acta'', cp ''reuni'' @ [243] @ cp ''n'',
      cp ''proyecto'', cp ''civil'']"

definition COMANDOS_INICIO :: "pystr list" where
  "COMANDOS_INICIO =
     [cp ''se inicia la sesi'' @ [243] @ cp ''n'', cp ''iniciamos'', cp ''empezamos'']"

definition COMANDO_ACTIVAR :: "pystr list" where
  "COMANDO_ACTIVAR = [cp ''en acta'', cp ''dentro de acta'']"

definition COMANDO_DESACTIVAR :: "pystr list" where
  "COMANDO_DESACTIVAR = [cp ''fuera de acta'', cp ''off acta'']"

section \<open>Command detection and keyword search\<close>

text \<open>
  \<open>detectar_comando\<close> returns one of the strings "inicio", "activar", "desactivar", or
  \<open>None\<close>; the three strings are the constructors of \<open>comando\<close>.
\<close>

datatype comando = Inicio | Activar | Desactivar

definition detectar_comando :: "pystr \<Rightarrow> comando option" where
  "detectar_comando texto =
     (let texto_lower = lower texto in
      if list_ex (\<lambda>cmd. py_in cmd texto_lower) COMANDOS_INICIO then Some Inicio
      else if list_ex (\<lambda>cmd. py_in cmd texto_lower) COMANDO_ACTIVAR then Some Activar
      else if list_ex (\<lambda>cmd. py_in cmd texto_lower) COMANDO_DESACTIVAR then Some Desactivar
      else None)"

definition buscar_keywords :: "pystr \<Rightarrow> pystr list" where
  "buscar_keywords texto =
     (let texto_lower = lower texto;
          matches = filter (\<lambda>kw. py_in kw texto_lower) PALABRAS_CLAVE
      in if matches \<noteq> [] then matches else [])"

text \<open>
  What the specification calls a case-insensitive substring: some stretch of the text
  equals the phrase once both are put in lower case.
\<close>

definition ocurre_sin_caja :: "pystr \<Rightarrow> pystr \<Rightarrow> bool" where
  "ocurre_sin_caja frase texto =
     (\<exists>pre s post. texto = pre @ s @ post \<and> lower s = lower frase)"

section \<open>Segments and entries\<close>

text \<open>
  The dictionaries built by the program have fixed string keys and are modelled as records.
  A fine segment has the keys \<open>inicio\<close>, \<open>fin\<close>, \<open>duracion\<close> and \<open>audio\<close>; a segment of
  the minutes has \<open>inicio\<close>, \<open>fin\<close>, \<open>transcripcion\<close>, \<open>matches\<close> and \<open>tipo\<close>.  The two
  share the record \<open>ventana\<close> of their time keys.  Times are floats in the program and
  exact rationals here; the samples of the audio are an opaque payload.
\<close>

record ventana =
  inicio :: rat
  fin :: rat

record 'a segmento = ventana +
  duracion :: rat
  audio :: "'a list"

text \<open>The key \<open>tipo\<close> holds the string "comando" or "contenido".\<close>

datatype tipo_segmento = Comando | Contenido

record acta_segmento = ventana +
  transcripcion :: pystr
  matches :: "pystr list"
  tipo :: tipo_segmento

section \<open>The segmenter\<close>

text \<open>
  Exceptions: the division by a zero sample rate, the error that \<open>numpy.arange\<close> raises
  on a zero step, and whatever the speech recogniser or its temporary file raises.
\<close>

datatype py_error = ZeroDivisionError | ValueError | RuntimeError

text \<open>
  \<open>numpy.arange(start, stop, step)\<close> on floats, for a step other than zero: the values
  \<open>start + i * step\<close> for \<open>i\<close> below the ceiling of \<open>(stop - start) / step\<close>.
\<close>

definition np_arange :: "rat \<Rightarrow> rat \<Rightarrow> rat \<Rightarrow> rat list" where
  "np_arange start stop step =
     map (\<lambda>i. start + of_nat i * step) [0..<nat \<lceil>(stop - start) / step\<rceil>]"

text \<open>\<open>int(x)\<close> on a float truncates towards zero.\<close>

definition py_int :: "rat \<Rightarrow> int" where
  "py_int x = (if 0 \<le> x then \<lfloor>x\<rfloor> else \<lceil>x\<rceil>)"

text \<open>
  The slice \<open>y[a:b]\<close>: a negative bound counts from the end, and both bounds are clamped to
  the length of the array.
\<close>

definition py_slice :: "'a list \<Rightarrow> int \<Rightarrow> int \<Rightarrow> 'a list" where
  "py_slice y a b =
     (let n = int (length y);
          a' = (if a < 0 then max 0 (a + n) else min a n);
          b' = (if b < 0 then max 0 (b + n) else min b n)
      in take (nat (b' - a')) (drop (nat a') y))"

definition SEGMENTO_DURACION :: rat where
  "SEGMENTO_DURACION = 3"

text \<open>
  \<open>segmentar_audio_fino\<close> reads the window length from the module constant
  \<open>SEGMENTO_DURACION\<close>.  Its body is given with the window length as a parameter
  (\<open>segmentar_audio_fino_con\<close>), so that the properties of the tiling can be stated for
  every length; a step of zero makes \<open>numpy.arange\<close> raise.  \<open>duracion_total\<close> is the
  local variable of that name.
\<close>

definition duracion_total :: "'a list \<Rightarrow> int \<Rightarrow> rat" where
  "duracion_total y sr = of_nat (length y) / of_int sr"

definition segmentar_audio_fino_con :: "rat \<Rightarrow> 'a list \<Rightarrow> int \<Rightarrow> py_error + 'a segmento list" where
  "segmentar_audio_fino_con L y sr =
     (if sr = 0 then Inl ZeroDivisionError
      else if L = 0 then Inl ValueError
      else Inr (map (\<lambda>inicio.
             let fin = min (inicio + L) (duracion_total y sr);
                 audio_seg = py_slice y (py_int (inicio * of_int sr)) (py_int (fin * of_int sr))
             in \<lparr>inicio = inicio, fin = fin, duracion = fin - inicio, audio = audio_seg\<rparr>)
           (np_arange 0 (duracion_total y sr) L)))"

definition segmentar_audio_fino :: "'a list \<Rightarrow> int \<Rightarrow> py_error + 'a segmento list" where
  "segmentar_audio_fino y sr = segmentar_audio_fino_con SEGMENTO_DURACION y sr"

section \<open>The state of the loop\<close>

text \<open>The three local variables that the loop updates.\<close>

record estado =
  estado_activo :: bool
  en_acta :: bool
  acta_segmentos :: "acta_segmento list"

definition estado_inicial :: estado where
  "estado_inicial = \<lparr>estado_activo = False, en_acta = False, acta_segmentos = []\<rparr>"

text \<open>
  One iteration of the loop, for a segment and the transcript that
  \<open>transcribir_segmento\<close> returned for it.  Each \<open>continue\<close> of the source is a branch
  that returns the state reached so far.
\<close>

definition procesar_segmento :: "estado \<Rightarrow> 'a segmento \<times> pystr \<Rightarrow> estado" where
  "procesar_segmento st w =
     (let seg = fst w; transcripcion = snd w in
      if transcripcion = [] then st
      else
        let comando = detectar_comando transcripcion in
        if comando = Some Inicio then st\<lparr>estado_activo := True\<rparr>
        else if \<not> estado_activo st then st
        else if comando = Some Activar then st\<lparr>en_acta := True\<rparr>
        else if comando = Some Desactivar then
          st\<lparr>en_acta := False,
             acta_segmentos := acta_segmentos st @
               [\<lparr>inicio = inicio seg, fin = fin seg, transcripcion = transcripcion,
                 matches = buscar_keywords transcripcion, tipo = Comando\<rparr>]\<rparr>
        else if en_acta st \<and> transcripcion \<noteq> [] then
          (let matches = buscar_keywords transcripcion in
           st\<lparr>acta_segmentos := acta_segmentos st @
               [\<lparr>inicio = inicio seg, fin = fin seg, transcripcion = capitalize transcripcion,
                 matches = matches, tipo = Contenido\<rparr>]\<rparr>)
        else st)"

text \<open>The loop over the transcribed segments, and the list the function returns.\<close>

definition recorrer :: "estado \<Rightarrow> ('a segmento \<times> pystr) list \<Rightarrow> estado" where
  "recorrer st ws = foldl procesar_segmento st ws"

definition procesar_transcritos :: "('a segmento \<times> pystr) list \<Rightarrow> acta_segmento list" where
  "procesar_transcritos ws = acta_segmentos (recorrer estado_inicial ws)"

text \<open>
  Observations on a run.  \<open>estado_en ws i\<close> is the state in force when window \<open>i\<close> is
  processed; \<open>emitidos st w\<close> are the entries that processing \<open>w\<close> in state \<open>st\<close> appends
  to the output; \<open>emisiones st ws\<close> lists them window by window.
\<close>

definition estado_en :: "('a segmento \<times> pystr) list \<Rightarrow> nat \<Rightarrow> estado" where
  "estado_en ws i = recorrer estado_inicial (take i ws)"

definition emitidos :: "estado \<Rightarrow> 'a segmento \<times> pystr \<Rightarrow> acta_segmento list" where
  "emitidos st w = drop (length (acta_segmentos st)) (acta_segmentos (procesar_segmento st w))"

fun emisiones :: "estado \<Rightarrow> ('a segmento \<times> pystr) list \<Rightarrow> acta_segmento list list" where
  "emisiones st [] = []"
| "emisiones st (w # ws) = emitidos st w # emisiones (procesar_segmento st w) ws"

section \<open>Transcription and the whole function\<close>

text \<open>
  The speech recogniser is an external collaborator.  \<open>model\<close> stands for the loaded
  model together with the temporary file it is fed through: given the samples of a segment
  and the sample rate it yields the text of \<open>result["text"]\<close>, or the exception that
  writing, transcribing or removing the file raised.
\<close>

type_synonym 'a whisper = "'a list \<Rightarrow> int \<Rightarrow> py_error + pystr"

text \<open>\<open>str.strip()\<close> removes the code points for which \<open>str.isspace\<close> holds at both ends.\<close>

definition py_isspace :: "nat \<Rightarrow> bool" where
  "py_isspace c =
     ((9 \<le> c \<and> c \<le> 13) \<or> (28 \<le> c \<and> c \<le> 32) \<or> c = 133 \<or> c = 160 \<or> c = 5760 \<or>
      (8192 \<le> c \<and> c \<le> 8202) \<or> c = 8232 \<or> c = 8233 \<or> c = 8239 \<or> c = 8287 \<or> c = 12288)"

definition strip :: "pystr \<Rightarrow> pystr" where
  "strip s = rev (dropWhile py_isspace (rev (dropWhile py_isspace s)))"

definition transcribir_segmento :: "'a whisper \<Rightarrow> 'a list \<Rightarrow> int \<Rightarrow> py_error + pystr" where
  "transcribir_segmento model audio_seg sr =
     (case model audio_seg sr of
        Inl e \<Rightarrow> Inl e
      | Inr text \<Rightarrow>
          (let texto = lower (strip text) in Inr (if texto \<noteq> [] then texto else [])))"

text \<open>
  The \<open>for\<close> loop with the transcription inside, as the source has it: an exception of
  the recogniser ends the run.
\<close>

fun bucle :: "'a whisper \<Rightarrow> int \<Rightarrow> estado \<Rightarrow> 'a segmento list \<Rightarrow> py_error + estado" where
  "bucle model sr st [] = Inr st"
| "bucle model sr st (seg # segs) =
     (case transcribir_segmento model (audio seg) sr of
        Inl e \<Rightarrow> Inl e
      | Inr texto \<Rightarrow> bucle model sr (procesar_segmento st (seg, texto)) segs)"

definition procesar_audio_con_comandos ::
    "'a whisper \<Rightarrow> 'a list \<Rightarrow> int \<Rightarrow> py_error + acta_segmento list" where
  "procesar_audio_con_comandos model y sr =
     (case segmentar_audio_fino y sr of
        Inl e \<Rightarrow> Inl e
      | Inr segmentos_finos \<Rightarrow>
          (case bucle model sr estado_inicial segmentos_finos of
             Inl e \<Rightarrow> Inl e
           | Inr st \<Rightarrow> Inr (acta_segmentos st)))"

text \<open>
  Inputs for the scenarios: \<open>tramo k\<close> is the \<open>k\<close>-th window of three seconds, with no
  samples; \<open>escenario_A\<close> is scenario A of the specification over four such windows, and
  \<open>escenario_D\<close> a session in which the minutes are closed without ever being opened.
\<close>

definition tramo :: "nat \<Rightarrow> nat segmento" where
  "tramo k = \<lparr>inicio = 3 * of_nat k, fin = 3 * of_nat k + 3, duracion = 3, audio = []\<rparr>"

definition escenario_A :: "(nat segmento \<times> pystr) list" where
  "escenario_A =
     [(tramo 0, cp ''se inicia la sesi'' @ [243] @ cp ''n''),
      (tramo 1, cp ''en acta''),
      (tramo 2, cp ''hablamos de riesgo en la obra''),
      (tramo 3, cp ''fuera de acta'')]"

definition escenario_D :: "(nat segmento \<times> pystr) list" where
  "escenario_D =
     [(tramo 0, cp ''iniciamos''),
      (tramo 1, cp ''fuera de acta por riesgo'')]"

section \<open>Substring search\<close>

lemma startswith_iff: "startswith s sub \<longleftrightarrow> (\<exists>post. s = sub @ post)"
  by (induction s sub rule: startswith.induct) auto

lemma py_in_iff: "py_in sub s \<longleftrightarrow> (\<exists>pre post. s = pre @ sub @ post)"
proof (induction s)
  case Nil
  then show ?case by auto
next
  case (Cons d s)
  show ?case
  proof
    assume "py_in sub (d # s)"
    then consider "startswith (d # s) sub" | "py_in sub s" by auto
    then show "\<exists>pre post. d # s = pre @ sub @ post"
    proof cases
      case 1
      then obtain post where "d # s = sub @ post" by (auto simp: startswith_iff)
      then have "d # s = [] @ sub @ post" by simp
      then show ?thesis by blast
    next
      case 2
      then obtain pre post where "s = pre @ sub @ post" using Cons.IH by blast
      then have "d # s = (d # pre) @ sub @ post" by simp
      then show ?thesis by blast
    qed
  next
    assume "\<exists>pre post. d # s = pre @ sub @ post"
    then obtain pre post where eq: "d # s = pre @ sub @ post" by blast
    show "py_in sub (d # s)"
    proof (cases pre)
      case Nil
      with eq have "startswith (d # s) sub" by (auto simp: startswith_iff)
      then show ?thesis by simp
    next
      case (Cons e pre')
      with eq have "s = pre' @ sub @ post" by simp
      then have "py_in sub s" using Cons.IH by blast
      then show ?thesis by simp
    qed
  qed
qed

lemma lower_append: "lower (a @ b) = lower a @ lower b"
  by (simp add: lower_def)

lemma lower_split:
  "lower texto = pre @ mid @ post \<Longrightarrow>
   \<exists>a s b. texto = a @ s @ b \<and> lower a = pre \<and> lower s = mid \<and> lower b = post"
  unfolding lower_def by (metis map_eq_append_conv)

lemma py_in_lower_iff:
  "py_in (lower frase) (lower texto) \<longleftrightarrow> ocurre_sin_caja frase texto"
proof
  assume "py_in (lower frase) (lower texto)"
  then obtain pre post where "lower texto = pre @ lower frase @ post"
    by (auto simp: py_in_iff)
  from lower_split [OF this] show "ocurre_sin_caja frase texto"
    unfolding ocurre_sin_caja_def by blast
next
  assume "ocurre_sin_caja frase texto"
  then obtain pre s post where "texto = pre @ s @ post" "lower s = lower frase"
    unfolding ocurre_sin_caja_def by blast
  then have "lower texto = lower pre @ lower frase @ lower post"
    by (simp add: lower_append)
  then show "py_in (lower frase) (lower texto)"
    unfolding py_in_iff by blast
qed

lemma lower_frases:
  "\<forall>cmd \<in> set (COMANDOS_INICIO @ COMANDO_ACTIVAR @ COMANDO_DESACTIVAR @ PALABRAS_CLAVE).
     lower cmd = cmd"
  by (simp add: COMANDOS_INICIO_def COMANDO_ACTIVAR_def COMANDO_DESACTIVAR_def
      PALABRAS_CLAVE_def lower_def lower_cp_def cp_def)

lemma list_ex_frases:
  "\<forall>cmd \<in> set fs. lower cmd = cmd \<Longrightarrow>
   list_ex (\<lambda>cmd. py_in cmd (lower texto)) fs \<longleftrightarrow> (\<exists>cmd \<in> set fs. ocurre_sin_caja cmd texto)"
  by (metis list_ex_iff py_in_lower_iff)

section \<open>Steps and runs of the loop\<close>

lemma detectar_comando_no_vacio: "detectar_comando t = Some c \<Longrightarrow> t \<noteq> []"
  by (auto simp: detectar_comando_def lower_def COMANDOS_INICIO_def COMANDO_ACTIVAR_def
      COMANDO_DESACTIVAR_def cp_def)

lemma acta_procesar_segmento:
  "acta_segmentos (procesar_segmento st w) = acta_segmentos st @ emitidos st w"
  by (simp add: emitidos_def procesar_segmento_def Let_def)

lemma emitidos_casos:
  "emitidos st (seg, t) =
     (if t = [] \<or> \<not> estado_activo st then []
      else if detectar_comando t = Some Desactivar then
        [\<lparr>inicio = inicio seg, fin = fin seg, transcripcion = t,
          matches = buscar_keywords t, tipo = Comando\<rparr>]
      else if detectar_comando t = None \<and> en_acta st then
        [\<lparr>inicio = inicio seg, fin = fin seg, transcripcion = capitalize t,
          matches = buscar_keywords t, tipo = Contenido\<rparr>]
      else [])"
  by (cases "detectar_comando t"; cases "the (detectar_comando t)")
     (auto simp add: emitidos_def procesar_segmento_def Let_def)

lemma recorrer_simps:
  "recorrer st [] = st"
  "recorrer st (w # ws) = recorrer (procesar_segmento st w) ws"
  by (simp_all add: recorrer_def)

lemma recorrer_append: "recorrer st (xs @ ys) = recorrer (recorrer st xs) ys"
  by (simp add: recorrer_def)

lemma acta_recorrer:
  "acta_segmentos (recorrer st ws) = acta_segmentos st @ concat (emisiones st ws)"
  by (induction ws arbitrary: st) (simp_all add: recorrer_def acta_procesar_segmento)

lemma length_emisiones: "length (emisiones st ws) = length ws"
  by (induction ws arbitrary: st) simp_all

lemma emisiones_nth:
  "i < length ws \<Longrightarrow> emisiones st ws ! i = emitidos (recorrer st (take i ws)) (ws ! i)"
proof (induction ws arbitrary: st i)
  case Nil
  then show ?case by simp
next
  case (Cons w ws)
  then show ?case by (cases i) (simp_all add: recorrer_def)
qed

text \<open>
  When every transcription succeeds, the whole function returns what the loop returns on
  the segments paired with their transcripts.
\<close>

lemma bucle_recorrer:
  "list_all2 (\<lambda>seg t. transcribir_segmento model (audio seg) sr = Inr t) segs ts \<Longrightarrow>
   bucle model sr st segs = Inr (recorrer st (zip segs ts))"
proof (induction segs arbitrary: ts st)
  case Nil
  then show ?case by (simp add: recorrer_simps)
next
  case (Cons seg segs)
  from Cons.prems obtain t ts' where ts: "ts = t # ts'"
    and t: "transcribir_segmento model (audio seg) sr = Inr t"
    and r: "list_all2 (\<lambda>seg t. transcribir_segmento model (audio seg) sr = Inr t) segs ts'"
    by (auto simp: list_all2_Cons1)
  show ?case
    unfolding ts by (simp add: t recorrer_simps Cons.IH [OF r])
qed

lemma procesar_audio_con_comandos_transcritos:
  assumes "segmentar_audio_fino y sr = Inr segs"
    and "list_all2 (\<lambda>seg t. transcribir_segmento model (audio seg) sr = Inr t) segs ts"
  shows "procesar_audio_con_comandos model y sr = Inr (procesar_transcritos (zip segs ts))"
  unfolding procesar_audio_con_comandos_def procesar_transcritos_def
  by (simp add: assms(1) bucle_recorrer [OF assms(2)])

section \<open>The classifier\<close>

text \<open>
  C4.  The classifier tries the start phrases, then the activation phrases, then the
  deactivation phrases, and answers with the first kind one of whose phrases occurs in the
  text as a case-insensitive substring; it answers \<open>None\<close> when no phrase occurs.  In
  particular a text in which a start phrase occurs is classified as \<open>Inicio\<close>, whatever else
  occurs in it.
\<close>

theorem detectar_comando_prioridad:
  "detectar_comando texto =
     (if \<exists>cmd \<in> set COMANDOS_INICIO. ocurre_sin_caja cmd texto then Some Inicio
      else if \<exists>cmd \<in> set COMANDO_ACTIVAR. ocurre_sin_caja cmd texto then Some Activar
      else if \<exists>cmd \<in> set COMANDO_DESACTIVAR. ocurre_sin_caja cmd texto then Some Desactivar
      else None)
   \<and> ((\<exists>cmd \<in> set COMANDOS_INICIO. ocurre_sin_caja cmd texto) \<longrightarrow>
        detectar_comando texto = Some Inicio)"
proof -
  have i: "\<forall>cmd \<in> set COMANDOS_INICIO. lower cmd = cmd"
    and a: "\<forall>cmd \<in> set COMANDO_ACTIVAR. lower cmd = cmd"
    and d: "\<forall>cmd \<in> set COMANDO_DESACTIVAR. lower cmd = cmd"
    using lower_frases by simp_all
  show ?thesis
    unfolding detectar_comando_def Let_def
      list_ex_frases [OF i] list_ex_frases [OF a] list_ex_frases [OF d]
    by simp
qed

theorem detectar_comando_prioridad_witness:
  "(\<exists>cmd \<in> set COMANDOS_INICIO. ocurre_sin_caja cmd (cp ''Iniciamos fuera de acta''))
   \<and> (\<exists>cmd \<in> set COMANDO_DESACTIVAR. ocurre_sin_caja cmd (cp ''Iniciamos fuera de acta''))
   \<and> detectar_comando (cp ''Iniciamos fuera de acta'') = Some Inicio"
proof -
  have "cp ''Iniciamos fuera de acta'' = [] @ cp ''Iniciamos'' @ cp '' fuera de acta''"
    by (simp add: cp_def)
  moreover have "lower (cp ''Iniciamos'') = lower (cp ''iniciamos'')"
    by (simp add: cp_def lower_def lower_cp_def)
  ultimately have "ocurre_sin_caja (cp ''iniciamos'') (cp ''Iniciamos fuera de acta'')"
    unfolding ocurre_sin_caja_def by blast
  then have 1: "\<exists>cmd \<in> set COMANDOS_INICIO. ocurre_sin_caja cmd (cp ''Iniciamos fuera de acta'')"
    by (simp add: COMANDOS_INICIO_def)
  have "cp ''Iniciamos fuera de acta'' = cp ''Iniciamos '' @ cp ''fuera de acta'' @ []"
    by (simp add: cp_def)
  then have "ocurre_sin_caja (cp ''fuera de acta'') (cp ''Iniciamos fuera de acta'')"
    unfolding ocurre_sin_caja_def by blast
  then have 2: "\<exists>cmd \<in> set COMANDO_DESACTIVAR. ocurre_sin_caja cmd (cp ''Iniciamos fuera de acta'')"
    by (simp add: COMANDO_DESACTIVAR_def)
  from 1 detectar_comando_prioridad [of "cp ''Iniciamos fuera de acta''"]
  have "detectar_comando (cp ''Iniciamos fuera de acta'') = Some Inicio" by blast
  with 1 2 show ?thesis by blast
qed

section \<open>Properties of the loop\<close>

lemma estado_en_Suc:
  "i < length ws \<Longrightarrow> estado_en ws (Suc i) = procesar_segmento (estado_en ws i) (ws ! i)"
  by (simp add: estado_en_def take_Suc_conv_app_nth recorrer_append recorrer_simps)

lemma emisiones_inicial_nth:
  "i < length ws \<Longrightarrow> emisiones estado_inicial ws ! i = emitidos (estado_en ws i) (ws ! i)"
  by (simp add: emisiones_nth estado_en_def)

lemma procesar_transcritos_emisiones:
  "procesar_transcritos ws = concat (emisiones estado_inicial ws)"
  by (simp add: procesar_transcritos_def acta_recorrer estado_inicial_def)

lemma procesar_segmento_vacio: "procesar_segmento st (seg, []) = st"
  by (simp add: procesar_segmento_def)

text \<open>
  C8.  A window whose transcript is the empty string is skipped: the step leaves the whole
  state as it was, so neither flag changes and nothing is emitted, and the run goes on with
  the next window exactly as if the window had not been there.
\<close>

theorem transcripcion_vacia_se_omite:
  "procesar_segmento st (seg, []) = st
   \<and> emitidos st (seg, []) = []
   \<and> recorrer st (pre @ (seg, []) # post) = recorrer st (pre @ post)
   \<and> procesar_transcritos (pre @ (seg, []) # post) = procesar_transcritos (pre @ post)"
proof -
  have "recorrer st' (pre @ (seg, []) # post) = recorrer st' (pre @ post)" for st'
    by (simp add: recorrer_append recorrer_simps procesar_segmento_vacio)
  then show ?thesis
    by (simp add: procesar_segmento_vacio emitidos_def procesar_transcritos_def)
qed

lemma emitidos_inicio_activar:
  "detectar_comando t = Some Inicio \<or> detectar_comando t = Some Activar \<Longrightarrow>
   emitidos st (seg, t) = []"
  by (auto simp: emitidos_casos)

lemma emitidos_contenido:
  "e \<in> set (emitidos st w) \<Longrightarrow> tipo e = Contenido \<Longrightarrow> estado_activo st \<and> en_acta st"
  by (cases w) (auto simp: emitidos_casos split: if_splits)

text \<open>
  C2.  The output of a run is the concatenation of what each window emitted, and a window
  whose transcript is classified as \<open>Inicio\<close> or \<open>Activar\<close> emits nothing, whatever the
  state in force when it is processed.
\<close>

theorem inicio_y_activar_no_emiten:
  "procesar_transcritos ws = concat (emisiones estado_inicial ws)
   \<and> length (emisiones estado_inicial ws) = length ws
   \<and> (\<forall>i < length ws.
        detectar_comando (snd (ws ! i)) = Some Inicio \<or>
        detectar_comando (snd (ws ! i)) = Some Activar \<longrightarrow>
        emisiones estado_inicial ws ! i = [])
   \<and> (\<forall>st (seg :: 'a segmento) t.
        detectar_comando t = Some Inicio \<or> detectar_comando t = Some Activar \<longrightarrow>
        acta_segmentos (procesar_segmento st (seg, t)) = acta_segmentos st)"
proof (intro conjI allI impI)
  show "procesar_transcritos ws = concat (emisiones estado_inicial ws)"
    by (rule procesar_transcritos_emisiones)
  show "length (emisiones estado_inicial ws) = length ws"
    by (rule length_emisiones)
next
  fix i
  assume "i < length ws"
    and "detectar_comando (snd (ws ! i)) = Some Inicio \<or>
         detectar_comando (snd (ws ! i)) = Some Activar"
  then show "emisiones estado_inicial ws ! i = []"
    using emitidos_inicio_activar [of "snd (ws ! i)" "estado_en ws i" "fst (ws ! i)"]
    by (simp add: emisiones_inicial_nth)
next
  fix st and seg :: "'a segmento" and t
  assume "detectar_comando t = Some Inicio \<or> detectar_comando t = Some Activar"
  then show "acta_segmentos (procesar_segmento st (seg, t)) = acta_segmentos st"
    by (simp add: acta_procesar_segmento emitidos_inicio_activar)
qed

text \<open>
  C5.  An entry of kind \<open>Contenido\<close> is emitted for a window only if both \<open>estado_activo\<close>
  and \<open>en_acta\<close> hold when that window is processed.
\<close>

theorem contenido_solo_en_acta:
  "procesar_transcritos ws = concat (emisiones estado_inicial ws)
   \<and> (\<forall>i < length ws. \<forall>e \<in> set (emisiones estado_inicial ws ! i).
        tipo e = Contenido \<longrightarrow>
        estado_activo (estado_en ws i) \<and> en_acta (estado_en ws i))
   \<and> (\<forall>st (w :: 'a segmento \<times> pystr). \<forall>e \<in> set (emitidos st w).
        tipo e = Contenido \<longrightarrow> estado_activo st \<and> en_acta st)"
proof (intro conjI allI impI ballI)
  show "procesar_transcritos ws = concat (emisiones estado_inicial ws)"
    by (rule procesar_transcritos_emisiones)
next
  fix i e
  assume "i < length ws" "e \<in> set (emisiones estado_inicial ws ! i)" "tipo e = Contenido"
  then have "estado_activo (estado_en ws i) \<and> en_acta (estado_en ws i)"
    using emitidos_contenido [of e "estado_en ws i" "ws ! i"]
    by (simp add: emisiones_inicial_nth)
  then show "estado_activo (estado_en ws i)" and "en_acta (estado_en ws i)" by simp_all
next
  fix st and w :: "'a segmento \<times> pystr" and e
  assume "e \<in> set (emitidos st w)" "tipo e = Contenido"
  then have "estado_activo st \<and> en_acta st" by (rule emitidos_contenido)
  then show "estado_activo st" and "en_acta st" by simp_all
qed

lemma estado_activo_procesar:
  "estado_activo st \<Longrightarrow> estado_activo (procesar_segmento st w)"
  by (simp add: procesar_segmento_def Let_def)

lemma estado_activo_recorrer:
  "estado_activo st \<Longrightarrow> estado_activo (recorrer st ws)"
  by (induction ws arbitrary: st) (simp_all add: recorrer_simps estado_activo_procesar)

lemma estado_en_mas:
  "i \<le> j \<Longrightarrow> estado_en ws j = recorrer (estado_en ws i) (drop i (take j ws))"
proof -
  assume "i \<le> j"
  then have "take i (take j ws) = take i ws" by (simp add: min_def)
  moreover have "take j ws = take i (take j ws) @ drop i (take j ws)"
    by (simp only: append_take_drop_id)
  ultimately have "take j ws = take i ws @ drop i (take j ws)" by (simp only:)
  then have "recorrer estado_inicial (take j ws) =
      recorrer estado_inicial (take i ws @ drop i (take j ws))" by simp
  then show ?thesis unfolding estado_en_def recorrer_append .
qed

lemma estado_activo_tras_inicio:
  assumes "i < length ws" and "detectar_comando (snd (ws ! i)) = Some Inicio"
  shows "estado_activo (estado_en ws (Suc i))"
proof -
  have "snd (ws ! i) \<noteq> []"
    using assms(2) by (rule detectar_comando_no_vacio)
  then show ?thesis
    using assms by (simp add: estado_en_Suc procesar_segmento_def Let_def)
qed

text \<open>
  C10.  Once \<open>estado_activo\<close> is true it stays true: no step resets it, so it holds at
  every later point of a run, and every window after a window classified as \<open>Inicio\<close> is
  processed with \<open>estado_activo\<close> true.
\<close>

theorem sesion_no_se_cierra:
  "(\<forall>st (w :: 'a segmento \<times> pystr).
      estado_activo st \<longrightarrow> estado_activo (procesar_segmento st w))
   \<and> (\<forall>st. estado_activo st \<longrightarrow> estado_activo (recorrer st ws))
   \<and> (\<forall>i j. i \<le> j \<and> estado_activo (estado_en ws i) \<longrightarrow> estado_activo (estado_en ws j))
   \<and> (\<forall>i j. i < j \<and> j \<le> length ws \<and> detectar_comando (snd (ws ! i)) = Some Inicio \<longrightarrow>
        estado_activo (estado_en ws j))"
proof (intro conjI allI impI)
  fix st :: estado and w :: "'a segmento \<times> pystr"
  assume "estado_activo st"
  then show "estado_activo (procesar_segmento st w)" by (rule estado_activo_procesar)
next
  fix st :: estado
  assume "estado_activo st"
  then show "estado_activo (recorrer st ws)" by (rule estado_activo_recorrer)
next
  fix i j
  assume "i \<le> j \<and> estado_activo (estado_en ws i)"
  then show "estado_activo (estado_en ws j)"
    by (simp add: estado_en_mas [of i j] estado_activo_recorrer)
next
  fix i j
  assume h: "i < j \<and> j \<le> length ws \<and> detectar_comando (snd (ws ! i)) = Some Inicio"
  then have "estado_activo (estado_en ws (Suc i))"
    by (simp add: estado_activo_tras_inicio)
  moreover have "Suc i \<le> j" using h by simp
  ultimately show "estado_activo (estado_en ws j)"
    by (simp add: estado_en_mas [of "Suc i" j] estado_activo_recorrer)
qed

lemma sorted_wrt_subseq:
  "subseq xs ys \<Longrightarrow> sorted_wrt P ys \<Longrightarrow> sorted_wrt P xs"
proof (induction rule: list_emb.induct)
  case (list_emb_Nil ys)
  then show ?case by simp
next
  case (list_emb_Cons xs ys y)
  then show ?case by simp
next
  case (list_emb_Cons2 x y xs ys)
  have "P y z" if "z \<in> set xs" for z
  proof -
    from list_emb_set [OF list_emb_Cons2.hyps(2) that] obtain z' where "z' \<in> set ys" "z = z'"
      by blast
    with list_emb_Cons2.prems show ?thesis by simp
  qed
  with list_emb_Cons2 show ?case by simp
qed

lemma length_emitidos: "length (emitidos st w) \<le> 1"
  by (cases w) (simp add: emitidos_casos)

lemma ventana_emitidos:
  "e \<in> set (emitidos st w) \<Longrightarrow> inicio e = inicio (fst w) \<and> fin e = fin (fst w)"
  by (cases w) (auto simp: emitidos_casos split: if_splits)

lemma subseq_emisiones:
  "subseq (map (\<lambda>e. (inicio e, fin e)) (concat (emisiones st ws)))
          (map (\<lambda>w. (inicio (fst w), fin (fst w))) ws)"
proof (induction ws arbitrary: st)
  case Nil
  then show ?case by simp
next
  case (Cons w ws)
  show ?case
  proof (cases "emitidos st w")
    case Nil
    then show ?thesis using list_emb_Cons [OF Cons.IH [of "procesar_segmento st w"]] by simp
  next
    case (Cons e es)
    with length_emitidos [of st w] have es: "es = []" by simp
    have "e \<in> set (emitidos st w)" using Cons by simp
    then have "inicio e = inicio (fst w) \<and> fin e = fin (fst w)" by (rule ventana_emitidos)
    then show ?thesis using Cons es Cons.IH [of "procesar_segmento st w"] by simp
  qed
qed

lemma length_concat_emisiones: "length (concat (emisiones st ws)) \<le> length ws"
proof (induction ws arbitrary: st)
  case Nil
  then show ?case by simp
next
  case (Cons w ws)
  from length_emitidos [of st w] Cons.IH [of "procesar_segmento st w"]
  show ?case by simp
qed

lemma length_concat_emisiones_inactivo:
  assumes "\<not> estado_activo st" and "ws \<noteq> []"
  shows "length (concat (emisiones st ws)) < length ws"
proof -
  from assms(2) obtain w ws' where ws: "ws = w # ws'" by (cases ws) auto
  obtain seg t where w: "w = (seg, t)" by (cases w)
  have "emitidos st w = []" using assms(1) unfolding w by (simp add: emitidos_casos)
  with length_concat_emisiones [of "procesar_segmento st w" ws']
  show ?thesis unfolding ws by simp
qed

text \<open>
  C6.  Every window emits at most one entry, an entry carries the times of the window it
  comes from, and the output lists the entries in the order of their windows: the windows of
  the output are a subsequence of the windows of the input.  When the starts of the input
  windows increase strictly, so do the starts of the output entries, and no start is repeated.
  The subsequence is a proper one unless the input is empty, since the window that opens
  the session emits nothing.
\<close>

theorem salida_subsecuencia:
  "procesar_transcritos ws = concat (emisiones estado_inicial ws)
   \<and> length (emisiones estado_inicial ws) = length ws
   \<and> (\<forall>i < length ws.
        length (emisiones estado_inicial ws ! i) \<le> 1 \<and>
        (\<forall>e \<in> set (emisiones estado_inicial ws ! i).
           inicio e = inicio (fst (ws ! i)) \<and> fin e = fin (fst (ws ! i))))
   \<and> subseq (map (\<lambda>e. (inicio e, fin e)) (procesar_transcritos ws))
             (map (\<lambda>w. (inicio (fst w), fin (fst w))) ws)
   \<and> (sorted_wrt (<) (map (\<lambda>w. inicio (fst w)) ws) \<longrightarrow>
        sorted_wrt (<) (map inicio (procesar_transcritos ws)) \<and>
        distinct (map inicio (procesar_transcritos ws)))
   \<and> (ws \<noteq> [] \<longrightarrow> length (procesar_transcritos ws) < length ws)"
proof (intro conjI allI impI ballI)
  assume "ws \<noteq> []"
  then show "length (procesar_transcritos ws) < length ws"
    unfolding procesar_transcritos_emisiones
    by (intro length_concat_emisiones_inactivo) (simp_all add: estado_inicial_def)
next
  show "procesar_transcritos ws = concat (emisiones estado_inicial ws)"
    by (rule procesar_transcritos_emisiones)
  show "length (emisiones estado_inicial ws) = length ws"
    by (rule length_emisiones)
  show sub: "subseq (map (\<lambda>e. (inicio e, fin e)) (procesar_transcritos ws))
             (map (\<lambda>w. (inicio (fst w), fin (fst w))) ws)"
    unfolding procesar_transcritos_emisiones by (rule subseq_emisiones)
  {
    assume ord: "sorted_wrt (<) (map (\<lambda>w. inicio (fst w)) ws)"
    from subseq_map [OF sub, of fst]
    have "subseq (map inicio (procesar_transcritos ws)) (map (\<lambda>w. inicio (fst w)) ws)"
      by (simp add: comp_def)
    from sorted_wrt_subseq [OF this ord]
    show s: "sorted_wrt (<) (map inicio (procesar_transcritos ws))" .
    then show "distinct (map inicio (procesar_transcritos ws))"
      by (simp add: strict_sorted_iff)
  }
next
  fix i assume "i < length ws"
  then show "length (emisiones estado_inicial ws ! i) \<le> 1"
    using length_emitidos [of "estado_en ws i" "ws ! i"] by (simp add: emisiones_inicial_nth)
next
  fix i e assume "i < length ws" "e \<in> set (emisiones estado_inicial ws ! i)"
  then have "inicio e = inicio (fst (ws ! i)) \<and> fin e = fin (fst (ws ! i))"
    using ventana_emitidos [of e "estado_en ws i" "ws ! i"] by (simp add: emisiones_inicial_nth)
  then show "inicio e = inicio (fst (ws ! i))" and "fin e = fin (fst (ws ! i))" by simp_all
qed

lemma procesar_segmento_vista:
  assumes "inicio seg = inicio seg'" and "fin seg = fin seg'"
  shows "procesar_segmento st (seg, t) = procesar_segmento st (seg', t)"
  unfolding procesar_segmento_def Let_def fst_conv snd_conv assms ..

lemma recorrer_vista:
  "map (\<lambda>w. (inicio (fst w), fin (fst w), snd w)) ws =
   map (\<lambda>w. (inicio (fst w), fin (fst w), snd w)) ws' \<Longrightarrow>
   recorrer st ws = recorrer st ws'"
proof (induction ws arbitrary: ws' st)
  case Nil
  then show ?case by (simp add: recorrer_simps)
next
  case (Cons w ws)
  obtain seg t where w: "w = (seg, t)" by (cases w)
  from Cons.prems obtain w' ws'' where ws': "ws' = w' # ws''" by (cases ws') auto
  obtain seg' t' where w': "w' = (seg', t')" by (cases w')
  from Cons.prems have v: "inicio seg = inicio seg'" "fin seg = fin seg'" and t: "t = t'"
    and r: "map (\<lambda>w. (inicio (fst w), fin (fst w), snd w)) ws =
            map (\<lambda>w. (inicio (fst w), fin (fst w), snd w)) ws''"
    unfolding ws' w w' by simp_all
  have "procesar_segmento st w = procesar_segmento st w'"
    unfolding w w' t [symmetric] by (rule procesar_segmento_vista [OF v])
  then show ?case
    unfolding ws' recorrer_simps using Cons.IH [OF r] by simp
qed

text \<open>
  C9.  The output is determined by the times and the transcripts of the windows alone: two
  runs over sequences that agree on them return the same entries, whatever else the
  segments carry; in particular two runs over the same sequence return the same output.
\<close>

theorem salida_funcion_de_transcritos:
  "map (\<lambda>w. (inicio (fst w), fin (fst w), snd w)) ws =
   map (\<lambda>w. (inicio (fst w), fin (fst w), snd w)) ws' \<longrightarrow>
   procesar_transcritos ws = procesar_transcritos ws'"
  unfolding procesar_transcritos_def
proof
  assume "map (\<lambda>w. (inicio (fst w), fin (fst w), snd w)) ws =
          map (\<lambda>w. (inicio (fst w), fin (fst w), snd w)) ws'"
  then have "recorrer estado_inicial ws = recorrer estado_inicial ws'"
    by (rule recorrer_vista)
  then show "acta_segmentos (recorrer estado_inicial ws) =
             acta_segmentos (recorrer estado_inicial ws')"
    by (rule arg_cong)
qed

lemma buscar_keywords_ocurre:
  "buscar_keywords t = filter (\<lambda>kw. ocurre_sin_caja kw t) PALABRAS_CLAVE"
proof -
  have "filter (\<lambda>kw. py_in kw (lower t)) PALABRAS_CLAVE =
        filter (\<lambda>kw. ocurre_sin_caja kw t) PALABRAS_CLAVE"
  proof (rule filter_cong [OF refl])
    fix kw assume "kw \<in> set PALABRAS_CLAVE"
    then have "lower kw = kw" using lower_frases by simp
    then show "py_in kw (lower t) = ocurre_sin_caja kw t"
      using py_in_lower_iff [of kw t] by simp
  qed
  then show ?thesis by (simp add: buscar_keywords_def Let_def)
qed

lemma procesar_transcritos_take:
  "procesar_transcritos (take i ws) = acta_segmentos (estado_en ws i)"
  by (simp add: procesar_transcritos_def estado_en_def)

text \<open>
  C3.  When a window classified as \<open>Desactivar\<close> is processed with \<open>estado_activo\<close> true,
  the step sets \<open>en_acta\<close> to false and appends exactly one entry of kind \<open>Comando\<close> for
  that window, with its transcript and with every keyword that occurs in it.  Nothing is
  asked of \<open>en_acta\<close> beforehand, so this covers a session whose minutes were never opened.
\<close>

theorem desactivar_emite_marcador:
  "\<forall>i < length ws.
     detectar_comando (snd (ws ! i)) = Some Desactivar \<and> estado_activo (estado_en ws i) \<longrightarrow>
     (let marcador = \<lparr>inicio = inicio (fst (ws ! i)), fin = fin (fst (ws ! i)),
                       transcripcion = snd (ws ! i),
                       matches = filter (\<lambda>kw. ocurre_sin_caja kw (snd (ws ! i))) PALABRAS_CLAVE,
                       tipo = Comando\<rparr>
      in estado_en ws (Suc i) =
           (estado_en ws i)\<lparr>en_acta := False,
              acta_segmentos := acta_segmentos (estado_en ws i) @ [marcador]\<rparr>
         \<and> \<not> en_acta (estado_en ws (Suc i))
         \<and> emisiones estado_inicial ws ! i = [marcador]
         \<and> procesar_transcritos (take (Suc i) ws) = procesar_transcritos (take i ws) @ [marcador])"
proof (intro allI impI)
  fix i
  assume i: "i < length ws"
    and h: "detectar_comando (snd (ws ! i)) = Some Desactivar \<and> estado_activo (estado_en ws i)"
  obtain seg t where w: "ws ! i = (seg, t)" by (cases "ws ! i")
  from h w have t: "t \<noteq> []" by (auto dest: detectar_comando_no_vacio)
  have paso: "procesar_segmento (estado_en ws i) (seg, t) =
      (estado_en ws i)\<lparr>en_acta := False,
         acta_segmentos := acta_segmentos (estado_en ws i) @
           [\<lparr>inicio = inicio seg, fin = fin seg, transcripcion = t,
             matches = buscar_keywords t, tipo = Comando\<rparr>]\<rparr>"
    using h w t by (simp add: procesar_segmento_def Let_def)
  have em: "emitidos (estado_en ws i) (seg, t) =
      [\<lparr>inicio = inicio seg, fin = fin seg, transcripcion = t,
        matches = buscar_keywords t, tipo = Comando\<rparr>]"
    using h w t by (simp add: emitidos_casos)
  show "let marcador = \<lparr>inicio = inicio (fst (ws ! i)), fin = fin (fst (ws ! i)),
                       transcripcion = snd (ws ! i),
                       matches = filter (\<lambda>kw. ocurre_sin_caja kw (snd (ws ! i))) PALABRAS_CLAVE,
                       tipo = Comando\<rparr>
      in estado_en ws (Suc i) =
           (estado_en ws i)\<lparr>en_acta := False,
              acta_segmentos := acta_segmentos (estado_en ws i) @ [marcador]\<rparr>
         \<and> \<not> en_acta (estado_en ws (Suc i))
         \<and> emisiones estado_inicial ws ! i = [marcador]
         \<and> procesar_transcritos (take (Suc i) ws) = procesar_transcritos (take i ws) @ [marcador]"
    unfolding Let_def procesar_transcritos_take
    using i paso em
    by (simp add: w estado_en_Suc emisiones_inicial_nth buscar_keywords_ocurre [symmetric])
qed

section \<open>The tiling of the segmenter\<close>










section \<open>Evaluation on the scenarios\<close>

lemma dc_inicio: "detectar_comando (cp ''se inicia la sesi'' @ 243 # cp ''n'') = Some Inicio"
  by (simp add: detectar_comando_def COMANDOS_INICIO_def lower_def lower_cp_def cp_def)

lemma dc_iniciamos: "detectar_comando (cp ''iniciamos'') = Some Inicio"
  by (simp add: detectar_comando_def COMANDOS_INICIO_def lower_def lower_cp_def cp_def)

lemma dc_activar: "detectar_comando (cp ''en acta'') = Some Activar"
  by (simp add: detectar_comando_def COMANDOS_INICIO_def COMANDO_ACTIVAR_def
      lower_def lower_cp_def cp_def)

lemma dc_contenido: "detectar_comando (cp ''hablamos de riesgo en la obra'') = None"
  by (simp add: detectar_comando_def COMANDOS_INICIO_def COMANDO_ACTIVAR_def
      COMANDO_DESACTIVAR_def lower_def lower_cp_def cp_def)

lemma dc_desactivar: "detectar_comando (cp ''fuera de acta'') = Some Desactivar"
  by (simp add: detectar_comando_def COMANDOS_INICIO_def COMANDO_ACTIVAR_def
      COMANDO_DESACTIVAR_def lower_def lower_cp_def cp_def)

lemma dc_desactivar_riesgo: "detectar_comando (cp ''fuera de acta por riesgo'') = Some Desactivar"
  by (simp add: detectar_comando_def COMANDOS_INICIO_def COMANDO_ACTIVAR_def
      COMANDO_DESACTIVAR_def lower_def lower_cp_def cp_def)

lemma bk_contenido:
  "buscar_keywords (cp ''hablamos de riesgo en la obra'') = [cp ''obra'', cp ''riesgo'']"
  by (simp add: buscar_keywords_def PALABRAS_CLAVE_def lower_def lower_cp_def cp_def)

lemma bk_desactivar: "buscar_keywords (cp ''fuera de acta'') = [cp ''acta'']"
  by (simp add: buscar_keywords_def PALABRAS_CLAVE_def lower_def lower_cp_def cp_def)

lemma bk_desactivar_riesgo:
  "buscar_keywords (cp ''fuera de acta por riesgo'') = [cp ''riesgo'', cp ''acta'']"
  by (simp add: buscar_keywords_def PALABRAS_CLAVE_def lower_def lower_cp_def cp_def)

lemma cap_contenido:
  "capitalize (cp ''hablamos de riesgo en la obra'') = cp ''Hablamos de riesgo en la obra''"
  by (simp add: cp_def title_cp_def lower_def lower_cp_def)

lemma no_vacio_contenido: "cp ''hablamos de riesgo en la obra'' \<noteq> []"
  by (simp add: cp_def)

lemma paso_inicio:
  "detectar_comando t = Some Inicio \<Longrightarrow> procesar_segmento st (seg, t) = st\<lparr>estado_activo := True\<rparr>"
  by (frule detectar_comando_no_vacio) (simp add: procesar_segmento_def)

lemma paso_activar:
  "detectar_comando t = Some Activar \<Longrightarrow> estado_activo st \<Longrightarrow>
   procesar_segmento st (seg, t) = st\<lparr>en_acta := True\<rparr>"
  by (frule detectar_comando_no_vacio) (simp add: procesar_segmento_def)

lemma paso_desactivar:
  "detectar_comando t = Some Desactivar \<Longrightarrow> estado_activo st \<Longrightarrow>
   procesar_segmento st (seg, t) =
     st\<lparr>en_acta := False,
        acta_segmentos := acta_segmentos st @
          [\<lparr>inicio = inicio seg, fin = fin seg, transcripcion = t,
            matches = buscar_keywords t, tipo = Comando\<rparr>]\<rparr>"
  by (frule detectar_comando_no_vacio) (simp add: procesar_segmento_def)

lemma paso_contenido:
  "detectar_comando t = None \<Longrightarrow> t \<noteq> [] \<Longrightarrow> estado_activo st \<Longrightarrow> en_acta st \<Longrightarrow>
   procesar_segmento st (seg, t) =
     st\<lparr>acta_segmentos := acta_segmentos st @
          [\<lparr>inicio = inicio seg, fin = fin seg, transcripcion = capitalize t,
            matches = buscar_keywords t, tipo = Contenido\<rparr>]\<rparr>"
  by (simp add: procesar_segmento_def)

lemmas evaluar = dc_inicio dc_iniciamos dc_activar dc_contenido dc_desactivar dc_desactivar_riesgo
  bk_contenido bk_desactivar bk_desactivar_riesgo cap_contenido no_vacio_contenido
  paso_inicio paso_activar paso_desactivar paso_contenido

lemma emisiones_A:
  "emisiones estado_inicial
     [(s1, cp ''se inicia la sesi'' @ [243] @ cp ''n''), (s2, cp ''en acta''),
      (s3, cp ''hablamos de riesgo en la obra''), (s4, cp ''fuera de acta'')] =
   [[], [],
    [\<lparr>inicio = inicio s3, fin = fin s3,
      transcripcion = cp ''Hablamos de riesgo en la obra'',
      matches = [cp ''obra'', cp ''riesgo''], tipo = Contenido\<rparr>],
    [\<lparr>inicio = inicio s4, fin = fin s4, transcripcion = cp ''fuera de acta'',
      matches = [cp ''acta''], tipo = Comando\<rparr>]]"
  by (simp add: estado_inicial_def emitidos_def evaluar)

text \<open>
  C1.  Scenario A: over the transcripts "se inicia la sesion", "en acta", "hablamos de
  riesgo en la obra", "fuera de acta", whatever the four segments, the run returns exactly
  two entries: the content entry of the third window, with the keywords riesgo and obra,
  then the command entry of the fourth window.  The first two windows emit nothing.
\<close>

theorem escenario_A_dos_entradas:
  "procesar_transcritos
     [(s1, cp ''se inicia la sesi'' @ [243] @ cp ''n''), (s2, cp ''en acta''),
      (s3, cp ''hablamos de riesgo en la obra''), (s4, cp ''fuera de acta'')] =
   [\<lparr>inicio = inicio s3, fin = fin s3,
     transcripcion = cp ''Hablamos de riesgo en la obra'',
     matches = [cp ''obra'', cp ''riesgo''], tipo = Contenido\<rparr>,
    \<lparr>inicio = inicio s4, fin = fin s4, transcripcion = cp ''fuera de acta'',
     matches = [cp ''acta''], tipo = Comando\<rparr>]
   \<and> emisiones estado_inicial
     [(s1, cp ''se inicia la sesi'' @ [243] @ cp ''n''), (s2, cp ''en acta''),
      (s3, cp ''hablamos de riesgo en la obra''), (s4, cp ''fuera de acta'')] =
   [[], [],
    [\<lparr>inicio = inicio s3, fin = fin s3,
      transcripcion = cp ''Hablamos de riesgo en la obra'',
      matches = [cp ''obra'', cp ''riesgo''], tipo = Contenido\<rparr>],
    [\<lparr>inicio = inicio s4, fin = fin s4, transcripcion = cp ''fuera de acta'',
      matches = [cp ''acta''], tipo = Comando\<rparr>]]
   \<and> map (\<lambda>e. set (matches e)) (procesar_transcritos
     [(s1, cp ''se inicia la sesi'' @ [243] @ cp ''n''), (s2, cp ''en acta''),
      (s3, cp ''hablamos de riesgo en la obra''), (s4, cp ''fuera de acta'')]) =
   [{cp ''riesgo'', cp ''obra''}, {cp ''acta''}]"
  unfolding procesar_transcritos_emisiones emisiones_A by (simp add: insert_commute)

section \<open>Instances\<close>

lemma emisiones_escenario_A:
  "emisiones estado_inicial escenario_A =
   [[], [],
    [\<lparr>inicio = 6, fin = 9, transcripcion = cp ''Hablamos de riesgo en la obra'',
      matches = [cp ''obra'', cp ''riesgo''], tipo = Contenido\<rparr>],
    [\<lparr>inicio = 9, fin = 12, transcripcion = cp ''fuera de acta'',
      matches = [cp ''acta''], tipo = Comando\<rparr>]]"
  unfolding escenario_A_def emisiones_A by (simp add: tramo_def)

lemma estados_escenario_A:
  "estado_en escenario_A 1 = \<lparr>estado_activo = True, en_acta = False, acta_segmentos = []\<rparr>"
  "estado_en escenario_A 2 = \<lparr>estado_activo = True, en_acta = True, acta_segmentos = []\<rparr>"
  by (simp_all add: estado_en_def escenario_A_def recorrer_simps estado_inicial_def evaluar)

lemma estados_escenario_D:
  "estado_en escenario_D 1 = \<lparr>estado_activo = True, en_acta = False, acta_segmentos = []\<rparr>"
  by (simp_all add: estado_en_def escenario_D_def recorrer_simps estado_inicial_def evaluar)

theorem inicio_y_activar_no_emiten_witness:
  "(1::nat) < length escenario_A
   \<and> detectar_comando (snd (escenario_A ! 1)) = Some Activar
   \<and> emisiones estado_inicial escenario_A ! 1 = []
   \<and> acta_segmentos (procesar_segmento estado_inicial (tramo 1, cp ''en acta'')) =
       acta_segmentos estado_inicial"
proof -
  have a: "(1::nat) < length escenario_A" by (simp add: escenario_A_def)
  have b: "detectar_comando (snd (escenario_A ! 1)) = Some Activar"
    by (simp add: escenario_A_def dc_activar)
  have c: "detectar_comando (cp ''en acta'') = Some Activar" by (rule dc_activar)
  note t = inicio_y_activar_no_emiten [of escenario_A]
  from t a b have "emisiones estado_inicial escenario_A ! 1 = []" by blast
  moreover from t c
  have "acta_segmentos (procesar_segmento estado_inicial (tramo 1, cp ''en acta'')) =
        acta_segmentos estado_inicial" by blast
  ultimately show ?thesis using a b by simp
qed

theorem contenido_solo_en_acta_witness:
  "(2::nat) < length escenario_A
   \<and> \<lparr>inicio = 6, fin = 9, transcripcion = cp ''Hablamos de riesgo en la obra'',
       matches = [cp ''obra'', cp ''riesgo''], tipo = Contenido\<rparr>
       \<in> set (emisiones estado_inicial escenario_A ! 2)
   \<and> estado_activo (estado_en escenario_A 2) \<and> en_acta (estado_en escenario_A 2)"
proof -
  let ?e = "\<lparr>inicio = 6, fin = 9, transcripcion = cp ''Hablamos de riesgo en la obra'',
       matches = [cp ''obra'', cp ''riesgo''], tipo = Contenido\<rparr>"
  have a: "(2::nat) < length escenario_A" by (simp add: escenario_A_def)
  have b: "?e \<in> set (emisiones estado_inicial escenario_A ! 2)"
    by (simp add: emisiones_escenario_A)
  have c: "tipo ?e = Contenido" by simp
  from contenido_solo_en_acta [of escenario_A] a b c
  have "estado_activo (estado_en escenario_A 2) \<and> en_acta (estado_en escenario_A 2)" by blast
  with a b show ?thesis by simp
qed

theorem sesion_no_se_cierra_witness:
  "(0::nat) < 3 \<and> 3 \<le> length escenario_A
   \<and> detectar_comando (snd (escenario_A ! 0)) = Some Inicio
   \<and> estado_activo (estado_en escenario_A 1)
   \<and> estado_activo (estado_en escenario_A 3)
   \<and> estado_activo (estado_en escenario_A 4)"
proof -
  have a: "(0::nat) < 3 \<and> 3 \<le> length escenario_A" by (simp add: escenario_A_def)
  have b: "detectar_comando (snd (escenario_A ! 0)) = Some Inicio"
    by (simp add: escenario_A_def dc_inicio)
  have c: "estado_activo (estado_en escenario_A 1)" using estados_escenario_A(1) by simp
  note t = sesion_no_se_cierra [of escenario_A]
  have "estado_activo (estado_en escenario_A 1) \<longrightarrow>
        estado_activo (procesar_segmento (estado_en escenario_A 1) (tramo 1, cp ''en acta''))"
    using t by blast
  from t a b have d: "estado_activo (estado_en escenario_A 3)" by blast
  have "(1::nat) \<le> 4" by simp
  with t c have e: "estado_activo (estado_en escenario_A 4)" by blast
  from a b c d e show ?thesis by simp
qed

theorem desactivar_emite_marcador_witness:
  "(1::nat) < length escenario_D
   \<and> detectar_comando (snd (escenario_D ! 1)) = Some Desactivar
   \<and> estado_activo (estado_en escenario_D 1) \<and> \<not> en_acta (estado_en escenario_D 1)
   \<and> \<not> en_acta (estado_en escenario_D 2)
   \<and> emisiones estado_inicial escenario_D ! 1 =
       [\<lparr>inicio = 3, fin = 6, transcripcion = cp ''fuera de acta por riesgo'',
         matches = [cp ''riesgo'', cp ''acta''], tipo = Comando\<rparr>]"
proof -
  have a: "(1::nat) < length escenario_D" by (simp add: escenario_D_def)
  have b: "detectar_comando (snd (escenario_D ! 1)) = Some Desactivar"
    by (simp add: escenario_D_def dc_desactivar_riesgo)
  have c: "estado_activo (estado_en escenario_D 1) \<and> \<not> en_acta (estado_en escenario_D 1)"
    using estados_escenario_D by simp
  have w: "escenario_D ! 1 = (tramo 1, cp ''fuera de acta por riesgo'')"
    by (simp add: escenario_D_def)
  from desactivar_emite_marcador [of escenario_D, rule_format, OF a] b c
  have "\<not> en_acta (estado_en escenario_D (Suc 1))
    \<and> emisiones estado_inicial escenario_D ! 1 =
       [\<lparr>inicio = inicio (fst (escenario_D ! 1)), fin = fin (fst (escenario_D ! 1)),
         transcripcion = snd (escenario_D ! 1),
         matches = filter (\<lambda>kw. ocurre_sin_caja kw (snd (escenario_D ! 1))) PALABRAS_CLAVE,
         tipo = Comando\<rparr>]"
    unfolding Let_def by blast
  then have "\<not> en_acta (estado_en escenario_D 2)
    \<and> emisiones estado_inicial escenario_D ! 1 =
       [\<lparr>inicio = 3, fin = 6, transcripcion = cp ''fuera de acta por riesgo'',
         matches = [cp ''riesgo'', cp ''acta''], tipo = Comando\<rparr>]"
    unfolding w buscar_keywords_ocurre [symmetric]
    by (simp add: tramo_def bk_desactivar_riesgo numeral_2_eq_2)
  with a b c show ?thesis by simp
qed

theorem salida_subsecuencia_witness:
  "sorted_wrt (<) (map (\<lambda>w. inicio (fst w)) escenario_A)
   \<and> sorted_wrt (<) (map inicio (procesar_transcritos escenario_A))
   \<and> map inicio (procesar_transcritos escenario_A) = [6, 9]
   \<and> (2::nat) < length escenario_A
   \<and> length (emisiones estado_inicial escenario_A ! 2) \<le> 1
   \<and> escenario_A \<noteq> []
   \<and> length (procesar_transcritos escenario_A) < length escenario_A"
proof -
  have n: "escenario_A \<noteq> []" by (simp add: escenario_A_def)
  have a: "sorted_wrt (<) (map (\<lambda>w. inicio (fst w)) escenario_A)"
    by (simp add: escenario_A_def tramo_def)
  have b: "(2::nat) < length escenario_A" by (simp add: escenario_A_def)
  note t = salida_subsecuencia [of escenario_A]
  from t a have c: "sorted_wrt (<) (map inicio (procesar_transcritos escenario_A))" by blast
  from t b have d: "length (emisiones estado_inicial escenario_A ! 2) \<le> 1" by blast
  from t have "procesar_transcritos escenario_A = concat (emisiones estado_inicial escenario_A)"
    by blast
  then have e: "map inicio (procesar_transcritos escenario_A) = [6, 9]"
    by (simp add: emisiones_escenario_A)
  from t n have f: "length (procesar_transcritos escenario_A) < length escenario_A" by blast
  from a b c d e n f show ?thesis by simp
qed

theorem salida_funcion_de_transcritos_witness:
  "map (\<lambda>w. (inicio (fst w), fin (fst w), snd w)) escenario_D =
   map (\<lambda>w. (inicio (fst w), fin (fst w), snd w))
     (map (\<lambda>w. (\<lparr>inicio = inicio (fst w), fin = fin (fst w), duracion = 0, audio = [True]\<rparr>, snd w)) escenario_D)
   \<and> procesar_transcritos escenario_D =
     procesar_transcritos (map (\<lambda>w. (\<lparr>inicio = inicio (fst w), fin = fin (fst w), duracion = 0, audio = [True]\<rparr>, snd w)) escenario_D)"
proof -
  have a: "map (\<lambda>w. (inicio (fst w), fin (fst w), snd w)) escenario_D =
   map (\<lambda>w. (inicio (fst w), fin (fst w), snd w))
     (map (\<lambda>w. (\<lparr>inicio = inicio (fst w), fin = fin (fst w), duracion = 0, audio = [True]\<rparr>, snd w)) escenario_D)"
    by (simp add: escenario_D_def)
  from salida_funcion_de_transcritos
    [of escenario_D "map (\<lambda>w. (\<lparr>inicio = inicio (fst w), fin = fin (fst w), duracion = 0, audio = [True]\<rparr>, snd w)) escenario_D"] a
  show ?thesis by blast
qed

end
